theory Spec2Isabelle
  imports Complex_Main "HOL-Library.AList"
begin

section \<open>Canvas minimap: geometry, bounds model, rendering, navigation, interception\<close>

text \<open>
  A shallow embedding of \<^verbatim>\<open>src/main.ts\<close>. A JavaScript \<^verbatim>\<open>number\<close> is modelled as a
  \<^typ>\<open>real\<close>: every value is finite and \<^verbatim>\<open>+\<close>, \<^verbatim>\<open>-\<close>, \<^verbatim>\<open>/\<close> are exact, so
  rounding, \<^verbatim>\<open>NaN\<close> and the infinities of IEEE doubles are outside the model. A thrown
  exception is the \<open>Inl\<close> branch of a sum.
\<close>

subsection \<open>Geometry primitives\<close>

text \<open>\<^verbatim>\<open>class Vector2 { x; y }\<close>; the fields are \<open>vx\<close> and \<open>vy\<close> here.\<close>

record Vector2 =
  vx :: real
  vy :: real

definition Vector2_add :: "Vector2 \<Rightarrow> Vector2 \<Rightarrow> Vector2" where
  "Vector2_add a b = \<lparr>vx = vx a + vx b, vy = vy a + vy b\<rparr>"

definition Vector2_sub :: "Vector2 \<Rightarrow> Vector2 \<Rightarrow> Vector2" where
  "Vector2_sub a b = \<lparr>vx = vx a - vx b, vy = vy a - vy b\<rparr>"

definition Vector2_lenSq :: "Vector2 \<Rightarrow> real" where
  "Vector2_lenSq a = vx a * vx a + vy a * vy a"

record BoundingBox =
  minX :: real
  minY :: real
  maxX :: real
  maxY :: real

text \<open>\<^verbatim>\<open>new BoundingBox()\<close>: every constructor argument defaults to 0.\<close>

definition BoundingBox_new :: BoundingBox where
  "BoundingBox_new = \<lparr>minX = 0, minY = 0, maxX = 0, maxY = 0\<rparr>"

text \<open>The \<^verbatim>\<open>SVGRect\<close> that \<^verbatim>\<open>getBBox()\<close> returns.\<close>

record SVGRect =
  rect_x :: real
  rect_y :: real
  rect_width :: real
  rect_height :: real

definition BoundingBox_fromRect :: "SVGRect option \<Rightarrow> BoundingBox" where
  "BoundingBox_fromRect bbox =
     (case bbox of
        None \<Rightarrow> BoundingBox_new
      | Some r \<Rightarrow> \<lparr>minX = rect_x r, minY = rect_y r,
                   maxX = rect_x r + rect_width r, maxY = rect_y r + rect_height r\<rparr>)"

definition BoundingBox_width :: "BoundingBox \<Rightarrow> real" where
  "BoundingBox_width b = maxX b - minX b"

definition BoundingBox_height :: "BoundingBox \<Rightarrow> real" where
  "BoundingBox_height b = maxY b - minY b"

definition BoundingBox_contains :: "BoundingBox \<Rightarrow> Vector2 \<Rightarrow> bool" where
  "BoundingBox_contains b p =
     (vx p \<ge> minX b \<and> vx p \<le> maxX b \<and> vy p \<ge> minY b \<and> vy p \<le> maxY b)"

definition BoundingBox_isValid :: "BoundingBox \<Rightarrow> bool" where
  "BoundingBox_isValid b = (minX b < maxX b \<and> minY b < maxY b)"

subsection \<open>The canvas snapshot and the settings\<close>

datatype CanvasNavigationStrategy = PAN | ZOOM | NONE

text \<open>
  The properties of a host canvas node that the plugin reads: \<^verbatim>\<open>id\<close>, \<^verbatim>\<open>x\<close>, \<^verbatim>\<open>y\<close>,
  \<^verbatim>\<open>width\<close>, \<^verbatim>\<open>height\<close>, \<^verbatim>\<open>bbox\<close> and \<^verbatim>\<open>unknownData?.type\<close> (\<open>None\<close> when absent).
\<close>

record CanvasNode =
  node_id :: string
  node_x :: real
  node_y :: real
  node_width :: real
  node_height :: real
  node_bbox :: BoundingBox
  node_type :: "string option"

text \<open>
  The properties of a host canvas edge that the plugin reads: \<^verbatim>\<open>e.from.node\<close>,
  \<^verbatim>\<open>e.from.side\<close>, \<^verbatim>\<open>e.to.node\<close>, \<^verbatim>\<open>e.to.side\<close> and \<^verbatim>\<open>e.fromSide\<close>, the last one
  \<open>None\<close> when the object has no such property.
\<close>

record CanvasEdge =
  from_node :: CanvasNode
  from_side :: string
  to_node :: CanvasNode
  to_side :: string
  fromSide :: "string option"

text \<open>
  \<^verbatim>\<open>canvas.nodes\<close> and \<^verbatim>\<open>canvas.edges\<close> are JavaScript \<^verbatim>\<open>Map\<close>s: association lists in
  insertion order.
\<close>

record Canvas =
  nodes :: "(string \<times> CanvasNode) list"
  edges :: "(string \<times> CanvasEdge) list"

record CanvasMinimapSettings =
  settings_width :: real
  settings_height :: real
  margin :: real
  enabled :: bool
  primaryNavigationStrategy :: CanvasNavigationStrategy
  secondaryNavigationStrategy :: CanvasNavigationStrategy

datatype error = Error string | TypeError

subsection \<open>renderMinimap\<close>

text \<open>The arrow function \<^verbatim>\<open>sidePositionOf\<close> of \<^verbatim>\<open>renderMinimap\<close>.\<close>

definition sidePositionOf :: "CanvasNode \<Rightarrow> string \<Rightarrow> error + Vector2" where
  "sidePositionOf node side =
     (let origin = \<lparr>vx = node_x node, vy = node_y node\<rparr>;
          radius = \<lparr>vx = node_width node / 2, vy = node_height node / 2\<rparr>;
          center = Vector2_add origin radius
      in if side = ''left'' then Inr (Vector2_sub center \<lparr>vx = vx radius, vy = 0\<rparr>)
         else if side = ''right'' then Inr (Vector2_add center \<lparr>vx = vx radius, vy = 0\<rparr>)
         else if side = ''top'' then Inr (Vector2_sub center \<lparr>vx = 0, vy = vy radius\<rparr>)
         else if side = ''bottom'' then Inr (Vector2_add center \<lparr>vx = 0, vy = vy radius\<rparr>)
         else Inl (Error (''invalid side '' @ side)))"

text \<open>
  One pass of the \<^verbatim>\<open>nodes.forEach\<close> callback over the accumulators \<^verbatim>\<open>bbox\<close>,
  \<^verbatim>\<open>groups\<close> and \<^verbatim>\<open>children\<close>. \<^verbatim>\<open>Map.set\<close> overwrites an existing key in place and
  appends a new one, which is \<^const>\<open>AList.update\<close>.
\<close>

definition bbox_step :: "BoundingBox \<Rightarrow> CanvasNode \<Rightarrow> BoundingBox" where
  "bbox_step bbox node =
     \<lparr>minX = min (minX bbox) (node_x node),
      minY = min (minY bbox) (node_y node),
      maxX = max (maxX bbox) (node_x node + node_width node),
      maxY = max (maxY bbox) (node_y node + node_height node)\<rparr>"

definition is_group :: "CanvasNode \<Rightarrow> bool" where
  "is_group node = (node_type node = Some ''group'')"

type_synonym NodeMap = "(string \<times> CanvasNode) list"

definition forEach_step ::
  "BoundingBox \<times> NodeMap \<times> NodeMap \<Rightarrow> CanvasNode \<Rightarrow> BoundingBox \<times> NodeMap \<times> NodeMap" where
  "forEach_step acc node =
     (case acc of (bbox, groups, children) \<Rightarrow>
        (bbox_step bbox node,
         if is_group node then AList.update (node_id node) node groups else groups,
         if is_group node then children else AList.update (node_id node) node children))"

definition content_pass :: "Canvas \<Rightarrow> BoundingBox \<times> NodeMap \<times> NodeMap" where
  "content_pass canvas = foldl forEach_step (BoundingBox_new, [], []) (map snd (nodes canvas))"

text \<open>The content bounding box: \<^verbatim>\<open>bbox\<close> after the \<^verbatim>\<open>nodes.forEach\<close> loop.\<close>

definition content_bbox :: "Canvas \<Rightarrow> BoundingBox" where
  "content_bbox canvas = fst (content_pass canvas)"

text \<open>The value stored in \<^verbatim>\<open>this.canvas_bounds\<close>.\<close>

definition padded_bounds :: "CanvasMinimapSettings \<Rightarrow> BoundingBox \<Rightarrow> BoundingBox" where
  "padded_bounds settings bbox =
     \<lparr>minX = minX bbox - margin settings,
      minY = minY bbox - margin settings,
      maxX = maxX bbox + margin settings,
      maxY = maxY bbox + margin settings\<rparr>"

text \<open>
  The scene appended to the \<^verbatim>\<open>svg\<close> element. The \<^verbatim>\<open>viewBox\<close> attribute is kept as its
  four numbers (x, y, width, height). A \<^verbatim>\<open>rect\<close> element is its \<^verbatim>\<open>id\<close> with the box its
  \<^verbatim>\<open>getBBox()\<close> reports, which for a \<^verbatim>\<open>rect\<close> is its \<^verbatim>\<open>x\<close>, \<^verbatim>\<open>y\<close>, \<^verbatim>\<open>width\<close>,
  \<^verbatim>\<open>height\<close> attributes (0 when unset). A path is the d3 link generator that drew it, with
  its source and target points. Colours, strokes and group labels are left out.
\<close>

record RectElement =
  element_id :: string
  element_bbox :: SVGRect

datatype LinkGenerator = linkHorizontal | linkVertical

record PathElement =
  path_link :: LinkGenerator
  path_source :: Vector2
  path_target :: Vector2

record Scene =
  viewBox :: "real \<times> real \<times> real \<times> real"
  svg_width :: real
  svg_height :: real
  rect_elements :: "RectElement list"
  path_elements :: "PathElement list"

text \<open>
  The \<^verbatim>\<open>rect\<close> drawn for a node by \<^verbatim>\<open>groups.forEach\<close> and \<^verbatim>\<open>children.forEach\<close>: the
  node's own \<^verbatim>\<open>x\<close>, \<^verbatim>\<open>y\<close>, \<^verbatim>\<open>width\<close>, \<^verbatim>\<open>height\<close> and \<^verbatim>\<open>id\<close> are copied to it.
\<close>

definition node_rect :: "CanvasNode \<Rightarrow> RectElement" where
  "node_rect n =
     \<lparr>element_id = node_id n,
      element_bbox = \<lparr>rect_x = node_x n, rect_y = node_y n,
                      rect_width = node_width n, rect_height = node_height n\<rparr>\<rparr>"

text \<open>The reserved indicator \<^verbatim>\<open>rect#minimap_viewport\<close>, appended to the background group.\<close>

definition viewport_rect :: RectElement where
  "viewport_rect =
     \<lparr>element_id = ''minimap_viewport'',
      element_bbox = \<lparr>rect_x = 0, rect_y = 0, rect_width = 0, rect_height = 0\<rparr>\<rparr>"

definition linkAnchor :: "string option \<Rightarrow> LinkGenerator" where
  "linkAnchor side =
     (if side = Some ''left'' \<or> side = Some ''right'' then linkHorizontal else linkVertical)"

text \<open>The \<^verbatim>\<open>edges.forEach\<close> callback: a throw of \<^verbatim>\<open>sidePositionOf\<close> leaves it.\<close>

definition render_edge :: "CanvasEdge \<Rightarrow> error + PathElement" where
  "render_edge e =
     (case sidePositionOf (from_node e) (from_side e) of
        Inl err \<Rightarrow> Inl err
      | Inr fromPos \<Rightarrow>
          (case sidePositionOf (to_node e) (to_side e) of
             Inl err \<Rightarrow> Inl err
           | Inr toPos \<Rightarrow>
               Inr \<lparr>path_link = linkAnchor (fromSide e),
                    path_source = fromPos, path_target = toPos\<rparr>))"

fun render_edges :: "CanvasEdge list \<Rightarrow> error + PathElement list" where
  "render_edges [] = Inr []"
| "render_edges (e # es) =
     (case render_edge e of
        Inl err \<Rightarrow> Inl err
      | Inr p \<Rightarrow> (case render_edges es of Inl err \<Rightarrow> Inl err | Inr ps \<Rightarrow> Inr (p # ps)))"

text \<open>
  \<^verbatim>\<open>renderMinimap(svg, canvas)\<close> on a fresh \<^verbatim>\<open>svg\<close>: the new \<^verbatim>\<open>this.canvas_bounds\<close>,
  which is assigned before anything can throw, and the scene or the error thrown. The
  \<^verbatim>\<open>rect\<close> elements are listed in document order: the background group with the
  indicator comes before the foreground group with the group rectangles and then the
  other nodes.
\<close>

definition renderMinimap ::
  "CanvasMinimapSettings \<Rightarrow> Canvas \<Rightarrow> BoundingBox \<times> (error + Scene)" where
  "renderMinimap settings canvas =
     (case content_pass canvas of (bbox, groups, children) \<Rightarrow>
        (let canvas_bounds = padded_bounds settings bbox
         in (canvas_bounds,
             case render_edges (map snd (edges canvas)) of
               Inl err \<Rightarrow> Inl err
             | Inr paths \<Rightarrow>
                 Inr \<lparr>viewBox = (minX canvas_bounds, minY canvas_bounds,
                                 BoundingBox_width canvas_bounds,
                                 BoundingBox_height canvas_bounds),
                      svg_width = settings_width settings,
                      svg_height = settings_height settings,
                      rect_elements =
                        viewport_rect # map (node_rect \<circ> snd) groups
                          @ map (node_rect \<circ> snd) children,
                      path_elements = paths\<rparr>)))"

subsection \<open>The click handler of the minimap\<close>

text \<open>
  \<^verbatim>\<open>svg.on('click', ...)\<close> in \<^verbatim>\<open>setupMinimap\<close>. Its inputs are the point \<open>p\<close> that
  \<^verbatim>\<open>d3.pointer(e)\<close> returns, whether \<^verbatim>\<open>Keymap.isModifier(e, 'Ctrl')\<close> holds, the box
  \<^verbatim>\<open>svg.node()?.getBBox()\<close>, the \<^verbatim>\<open>rect\<close> elements of the \<^verbatim>\<open>svg\<close> in document order and
  the result of \<^verbatim>\<open>getActiveCanvas()\<close>. Its result is the call made on the canvas, if any,
  or the exception thrown.
\<close>

datatype CanvasCall = panTo real real | zoomToBbox BoundingBox

text \<open>
  \<^verbatim>\<open>svg_nodes\<close> filtered by containment of the click point: the elements that
  \<^verbatim>\<open>target_nodes\<close> is mapped from.
\<close>

definition hit_rects :: "Vector2 \<Rightarrow> RectElement list \<Rightarrow> RectElement list" where
  "hit_rects p rects =
     (let svg_nodes = filter (\<lambda>r. element_id r \<noteq> ''minimap_viewport'') rects
      in filter (\<lambda>n. BoundingBox_contains (BoundingBox_fromRect (Some (element_bbox n))) p)
           svg_nodes)"

text \<open>
  The \<^verbatim>\<open>for (const n of target_nodes)\<close> loop over the running \<^verbatim>\<open>bbox\<close> and
  \<^verbatim>\<open>distSq\<close>. An entry is \<open>None\<close> where \<^verbatim>\<open>nodes.get\<close> returned \<^verbatim>\<open>undefined\<close>; reading
  its \<^verbatim>\<open>bbox\<close> throws a \<^verbatim>\<open>TypeError\<close>.
\<close>

fun focus_nearest ::
  "Vector2 \<Rightarrow> CanvasNode option list \<Rightarrow> BoundingBox \<Rightarrow> real \<Rightarrow> error + BoundingBox" where
  "focus_nearest p [] bbox distSq = Inr bbox"
| "focus_nearest p (None # ns) bbox distSq = Inl TypeError"
| "focus_nearest p (Some n # ns) bbox distSq =
     (let current_bbox = node_bbox n;
          current_distSq =
            Vector2_lenSq \<lparr>vx = minX current_bbox - vx p, vy = minY current_bbox - vy p\<rparr>
      in if current_distSq < distSq then focus_nearest p ns current_bbox current_distSq
         else focus_nearest p ns bbox distSq)"

text \<open>
  Hit test and choice of the target box. With no hit the \<^verbatim>\<open>map\<close> callback never runs
  and nothing is resolved; with a hit and no active canvas, \<^verbatim>\<open>active_canvas.nodes\<close>
  throws.
\<close>

definition resolve_target ::
  "Vector2 \<Rightarrow> RectElement list \<Rightarrow> Canvas option \<Rightarrow> error + BoundingBox option" where
  "resolve_target p rects active_canvas =
     (case hit_rects p rects of
        [] \<Rightarrow> Inr None
      | r # rs \<Rightarrow>
          (case active_canvas of
             None \<Rightarrow> Inl TypeError
           | Some canvas \<Rightarrow>
               (let target_nodes = map (\<lambda>n. map_of (nodes canvas) (element_id n)) (r # rs)
                in case hd target_nodes of
                     None \<Rightarrow> Inl TypeError
                   | Some n0 \<Rightarrow>
                       (let bbox = node_bbox n0;
                            distSq = Vector2_lenSq \<lparr>vx = minX bbox - vx p, vy = minY bbox - vy p\<rparr>
                        in case focus_nearest p target_nodes bbox distSq of
                             Inl err \<Rightarrow> Inl err
                           | Inr bbox' \<Rightarrow> Inr (Some bbox')))))"

definition navigate :: "CanvasMinimapSettings \<Rightarrow> bool \<Rightarrow> BoundingBox \<Rightarrow> CanvasCall option" where
  "navigate settings ctrl bbox =
     (let navigation_strategy =
            (if ctrl then secondaryNavigationStrategy settings
             else primaryNavigationStrategy settings)
      in if navigation_strategy = PAN
         then Some (panTo (minX bbox + (maxX bbox - minX bbox) / 2)
                          (minY bbox + (maxY bbox - minY bbox) / 2))
         else if navigation_strategy = ZOOM then Some (zoomToBbox bbox)
         else None)"

definition svg_click ::
  "CanvasMinimapSettings \<Rightarrow> bool \<Rightarrow> Vector2 \<Rightarrow> SVGRect option \<Rightarrow> RectElement list \<Rightarrow>
   Canvas option \<Rightarrow> error + CanvasCall option" where
  "svg_click settings ctrl p svg_getBBox rects active_canvas =
     (let svg_bbox = BoundingBox_fromRect svg_getBBox
      in if \<not> BoundingBox_contains svg_bbox p then Inr None
         else (case resolve_target p rects active_canvas of
                 Inl err \<Rightarrow> Inl err
               | Inr None \<Rightarrow> Inr None
               | Inr (Some bbox) \<Rightarrow> Inr (navigate settings ctrl bbox)))"

subsection \<open>Interception, event bus and overlay lifecycle\<close>

datatype CanvasEventType = CANVAS_MOVED | CANVAS_DIRTY | CANVAS_VIEWPORT_CHANGED | CANVAS_TICK

text \<open>
  A method slot of the host's \<^verbatim>\<open>canvas.constructor.prototype\<close>: the host's own method,
  or a wrapper installed by \<^verbatim>\<open>around\<close> (package monkey-around), which puts
  \<^verbatim>\<open>function (e) { next.call(this, e); that.dispatchCanvasEvent(type, ...) }\<close> in the
  slot, \<^verbatim>\<open>next\<close> being the slot's previous content.
\<close>

datatype CanvasMethod = host_method | wrapper CanvasMethod CanvasEventType

record CanvasPrototype =
  markMoved :: CanvasMethod
  markDirty :: CanvasMethod
  markViewportChanged :: CanvasMethod
  requestFrame :: CanvasMethod

text \<open>
  One invocation of a method slot: the \<^verbatim>\<open>dispatchCanvasEvent\<close> calls it makes, in order.
\<close>

fun dispatched :: "CanvasMethod \<Rightarrow> CanvasEventType list" where
  "dispatched host_method = []"
| "dispatched (wrapper next type) = dispatched next @ [type]"

definition around :: "CanvasPrototype \<Rightarrow> CanvasPrototype" where
  "around proto =
     \<lparr>markMoved = wrapper (markMoved proto) CANVAS_MOVED,
      markDirty = wrapper (markDirty proto) CANVAS_DIRTY,
      markViewportChanged = wrapper (markViewportChanged proto) CANVAS_VIEWPORT_CHANGED,
      requestFrame = wrapper (requestFrame proto) CANVAS_TICK\<rparr>"

text \<open>
  The event bus \<^verbatim>\<open>canvas_event\<close> is an instance of the host's \<^verbatim>\<open>Events\<close>: the
  registrations in order. \<^verbatim>\<open>on\<close> appends one; \<^verbatim>\<open>off(name, callback)\<close> drops every
  registration of that callback under that name. The plugin registers one callback only,
  the static method \<^verbatim>\<open>CanvasMinimap.onCanvasUpdate\<close>.
\<close>

datatype Callback = onCanvasUpdate

type_synonym Events = "(CanvasEventType \<times> Callback) list"

definition Events_on :: "Events \<Rightarrow> CanvasEventType \<Rightarrow> Callback \<Rightarrow> Events" where
  "Events_on ev name callback = ev @ [(name, callback)]"

definition Events_off :: "Events \<Rightarrow> CanvasEventType \<Rightarrow> Callback \<Rightarrow> Events" where
  "Events_off ev name callback = filter (\<lambda>r. r \<noteq> (name, callback)) ev"

text \<open>The active view of the host workspace, as \<^verbatim>\<open>getActiveViewOfType(FileView)\<close> gives it.\<close>

record FileView =
  viewType :: string
  view_canvas :: "Canvas option"

text \<open>
  The plugin instance with the part of the host it acts on: the prototype of the canvas
  class, the active view, and the ids of the overlay elements present under \<^verbatim>\<open>body\<close>.
  \<open>uninstallers\<close> counts the uninstall callbacks handed to \<^verbatim>\<open>this.register\<close>.
\<close>

record Plugin =
  settings :: CanvasMinimapSettings
  canvas_bounds :: BoundingBox
  canvas_patched :: bool
  canvas_event :: Events
  uninstallers :: nat
  prototype :: CanvasPrototype
  activeView :: "FileView option"
  body_ids :: "string list"

definition getActiveCanvas :: "Plugin \<Rightarrow> Canvas option" where
  "getActiveCanvas this =
     (case activeView this of
        None \<Rightarrow> None
      | Some currentView \<Rightarrow>
          if viewType currentView \<noteq> ''canvas'' then None else view_canvas currentView)"

definition patchCanvas :: "Canvas option \<Rightarrow> Plugin \<Rightarrow> Plugin" where
  "patchCanvas canvas this =
     (let this1 =
            (if canvas \<noteq> None
             then this\<lparr>prototype := around (prototype this),
                       uninstallers := Suc (uninstallers this),
                       canvas_patched := True\<rparr>
             else this)
      in this1\<lparr>canvas_event := Events_on (canvas_event this1) CANVAS_TICK onCanvasUpdate\<rparr>)"

text \<open>
  \<^verbatim>\<open>container.select('#id')\<close> selects the first matching element and \<^verbatim>\<open>remove()\<close>
  removes it; with no match nothing happens.
\<close>

definition unloadMinimap :: "Plugin \<Rightarrow> Plugin" where
  "unloadMinimap this =
     (if getActiveCanvas this \<noteq> None
      then this\<lparr>body_ids := remove1 ''_minimap_toolbar_'' (remove1 ''_minimap_'' (body_ids this)),
                canvas_event := Events_off (canvas_event this) CANVAS_TICK onCanvasUpdate\<rparr>
      else this)"

text \<open>
  \<^verbatim>\<open>setupMinimap\<close>: the plugin afterwards and the error \<^verbatim>\<open>renderMinimap\<close> threw, if any.
  The overlay \<^verbatim>\<open>div#_minimap_\<close> is appended to \<^verbatim>\<open>body\<close> only when
  \<^verbatim>\<open>d3.select('#_minimap_')\<close> is empty.
\<close>

definition setupMinimap :: "Plugin \<Rightarrow> Plugin \<times> error option" where
  "setupMinimap this =
     (if \<not> enabled (settings this) then (this, None)
      else case getActiveCanvas this of
             None \<Rightarrow> (this, None)
           | Some active_canvas \<Rightarrow>
               (let this1 = patchCanvas (Some active_canvas) this;
                    this2 = (if ''_minimap_'' \<notin> set (body_ids this1)
                             then this1\<lparr>body_ids := body_ids this1 @ [''_minimap_'']\<rparr>
                             else this1);
                    rendered = renderMinimap (settings this2) active_canvas
                in (this2\<lparr>canvas_bounds := fst rendered\<rparr>,
                    case snd rendered of Inl err \<Rightarrow> Some err | Inr scene \<Rightarrow> None)))"

definition reloadMinimap :: "Plugin \<Rightarrow> Plugin \<times> error option" where
  "reloadMinimap this = setupMinimap (unloadMinimap this)"

text \<open>The field initialisers of the class, with \<^verbatim>\<open>DEFAULT_SETTINGS\<close>, on an unpatched host.\<close>

definition DEFAULT_SETTINGS :: CanvasMinimapSettings where
  "DEFAULT_SETTINGS =
     \<lparr>settings_width = 400, settings_height = 300, margin = 100, enabled = True,
      primaryNavigationStrategy = ZOOM, secondaryNavigationStrategy = PAN\<rparr>"

definition new_plugin :: "FileView option \<Rightarrow> Plugin" where
  "new_plugin view =
     \<lparr>settings = DEFAULT_SETTINGS, canvas_bounds = BoundingBox_new, canvas_patched = False,
      canvas_event = [], uninstallers = 0,
      prototype = \<lparr>markMoved = host_method, markDirty = host_method,
                    markViewportChanged = host_method, requestFrame = host_method\<rparr>,
      activeView = view, body_ids = []\<rparr>"

subsection \<open>Example inputs\<close>

text \<open>
  A group node \<open>g1\<close> at (0, 0) of size 200 x 200 holding a node \<open>n1\<close> at (50, 50) of
  size 20 x 20, and two overlapping nodes \<open>a\<close> at (40, 40) and \<open>b\<close> at (45, 45), both
  of size 20 x 20. The host keeps \<^verbatim>\<open>bbox\<close> equal to the node's extent.
\<close>

definition node_g1 :: CanvasNode where
  "node_g1 =
     \<lparr>node_id = ''g1'', node_x = 0, node_y = 0, node_width = 200, node_height = 200,
      node_bbox = \<lparr>minX = 0, minY = 0, maxX = 200, maxY = 200\<rparr>,
      node_type = Some ''group''\<rparr>"

definition node_n1 :: CanvasNode where
  "node_n1 =
     \<lparr>node_id = ''n1'', node_x = 50, node_y = 50, node_width = 20, node_height = 20,
      node_bbox = \<lparr>minX = 50, minY = 50, maxX = 70, maxY = 70\<rparr>,
      node_type = None\<rparr>"

definition node_a :: CanvasNode where
  "node_a =
     \<lparr>node_id = ''a'', node_x = 40, node_y = 40, node_width = 20, node_height = 20,
      node_bbox = \<lparr>minX = 40, minY = 40, maxX = 60, maxY = 60\<rparr>,
      node_type = None\<rparr>"

definition node_b :: CanvasNode where
  "node_b =
     \<lparr>node_id = ''b'', node_x = 45, node_y = 45, node_width = 20, node_height = 20,
      node_bbox = \<lparr>minX = 45, minY = 45, maxX = 65, maxY = 65\<rparr>,
      node_type = None\<rparr>"

definition group_canvas :: Canvas where
  "group_canvas = \<lparr>nodes = [(''g1'', node_g1), (''n1'', node_n1)], edges = []\<rparr>"

definition overlap_canvas :: Canvas where
  "overlap_canvas = \<lparr>nodes = [(''a'', node_a), (''b'', node_b)], edges = []\<rparr>"

text \<open>
  The canvas of \<open>a\<close> and \<open>b\<close> after the user has dragged \<open>a\<close> to (49, 49), and the
  canvas with a third node \<open>c\<close> at (51, 51) of size 20 x 20.
\<close>

definition node_a_moved :: CanvasNode where
  "node_a_moved =
     \<lparr>node_id = ''a'', node_x = 49, node_y = 49, node_width = 20, node_height = 20,
      node_bbox = \<lparr>minX = 49, minY = 49, maxX = 69, maxY = 69\<rparr>,
      node_type = None\<rparr>"

definition moved_canvas :: Canvas where
  "moved_canvas = \<lparr>nodes = [(''a'', node_a_moved), (''b'', node_b)], edges = []\<rparr>"

definition node_c :: CanvasNode where
  "node_c =
     \<lparr>node_id = ''c'', node_x = 51, node_y = 51, node_width = 20, node_height = 20,
      node_bbox = \<lparr>minX = 51, minY = 51, maxX = 71, maxY = 71\<rparr>,
      node_type = None\<rparr>"

definition three_canvas :: Canvas where
  "three_canvas =
     \<lparr>nodes = [(''a'', node_a), (''b'', node_b), (''c'', node_c)], edges = []\<rparr>"

text \<open>
  An edge leaving \<open>a\<close> on its right side and entering \<open>g1\<close> on its top side, as the
  host holds it: the sides are under \<^verbatim>\<open>from\<close> and \<^verbatim>\<open>to\<close>, and there is no
  \<^verbatim>\<open>fromSide\<close> property.
\<close>

definition edge_right_top :: CanvasEdge where
  "edge_right_top =
     \<lparr>from_node = node_a, from_side = ''right'', to_node = node_g1, to_side = ''top'',
      fromSide = None\<rparr>"

definition canvas_view :: "Canvas \<Rightarrow> FileView" where
  "canvas_view c = \<lparr>viewType = ''canvas'', view_canvas = Some c\<rparr>"

definition markdown_view :: FileView where
  "markdown_view = \<lparr>viewType = ''markdown'', view_canvas = None\<rparr>"

text \<open>
  The plugin after \<^verbatim>\<open>setupMinimap\<close> on an active canvas view, once the user has moved
  to a markdown view.
\<close>

definition left_canvas :: Plugin where
  "left_canvas =
     (fst (setupMinimap (new_plugin (Some (canvas_view group_canvas)))))
       \<lparr>activeView := Some markdown_view\<rparr>"

text \<open>
  The squared distance from the click point to the top-left corner of a box, as the
  handler computes it.
\<close>

abbreviation corner_distSq :: "Vector2 \<Rightarrow> BoundingBox \<Rightarrow> real" where
  "corner_distSq p b \<equiv> Vector2_lenSq \<lparr>vx = minX b - vx p, vy = minY b - vy p\<rparr>"

section \<open>Properties\<close>

subsection \<open>The content bounding box\<close>

lemma bbox_step_sel:
  "minX (bbox_step b n) = min (minX b) (node_x n)"
  "minY (bbox_step b n) = min (minY b) (node_y n)"
  "maxX (bbox_step b n) = max (maxX b) (node_x n + node_width n)"
  "maxY (bbox_step b n) = max (maxY b) (node_y n + node_height n)"
  by (simp_all add: bbox_step_def)

lemma fst_foldl_forEach_step:
  "fst (foldl forEach_step (b, g, c) ns) = foldl bbox_step b ns"
  by (induction ns arbitrary: b g c) (simp_all add: forEach_step_def)

lemma content_bbox_foldl:
  "content_bbox canvas = foldl bbox_step BoundingBox_new (map snd (nodes canvas))"
  by (simp add: content_bbox_def content_pass_def fst_foldl_forEach_step)

text \<open>
  A field that each step lowers to the minimum with a node quantity ends as the minimum
  over the start value and all nodes; dually for the maximum.
\<close>

lemma foldl_bbox_step_min:
  "f (foldl bbox_step b ns) = Min (insert (f b) (g ` set ns))"
  if "\<And>b n. f (bbox_step b n) = min (f b) (g n)" for f :: "BoundingBox \<Rightarrow> real"
proof (induction ns arbitrary: b)
  case Nil
  show ?case by simp
next
  case (Cons n ns)
  have "Min (insert (min (f b) (g n)) (g ` set ns))
      = Min (insert (f b) (insert (g n) (g ` set ns)))"
    by (cases "set ns = {}") (simp_all add: min.assoc)
  then show ?case by (simp add: Cons.IH that)
qed

lemma foldl_bbox_step_max:
  "f (foldl bbox_step b ns) = Max (insert (f b) (g ` set ns))"
  if "\<And>b n. f (bbox_step b n) = max (f b) (g n)" for f :: "BoundingBox \<Rightarrow> real"
proof (induction ns arbitrary: b)
  case Nil
  show ?case by simp
next
  case (Cons n ns)
  have "Max (insert (max (f b) (g n)) (g ` set ns))
      = Max (insert (f b) (insert (g n) (g ` set ns)))"
    by (cases "set ns = {}") (simp_all add: max.assoc)
  then show ?case by (simp add: Cons.IH that)
qed

lemma content_bbox_fields:
  "minX (content_bbox c) = Min (insert 0 (node_x ` set (map snd (nodes c))))"
  "minY (content_bbox c) = Min (insert 0 (node_y ` set (map snd (nodes c))))"
  "maxX (content_bbox c)
     = Max (insert 0 ((\<lambda>n. node_x n + node_width n) ` set (map snd (nodes c))))"
  "maxY (content_bbox c)
     = Max (insert 0 ((\<lambda>n. node_y n + node_height n) ` set (map snd (nodes c))))"
  unfolding content_bbox_foldl
  using foldl_bbox_step_min [of minX node_x BoundingBox_new]
        foldl_bbox_step_min [of minY node_y BoundingBox_new]
        foldl_bbox_step_max [of maxX "\<lambda>n. node_x n + node_width n" BoundingBox_new]
        foldl_bbox_step_max [of maxY "\<lambda>n. node_y n + node_height n" BoundingBox_new]
  by (simp_all add: bbox_step_sel BoundingBox_new_def)

lemma content_bbox_empty: "content_bbox \<lparr>nodes = [], edges = es\<rparr> = BoundingBox_new"
  by (simp add: content_bbox_foldl)

lemma group_canvas_pass:
  "content_pass group_canvas =
     (\<lparr>minX = 0, minY = 0, maxX = 200, maxY = 200\<rparr>, [(''g1'', node_g1)], [(''n1'', node_n1)])"
  by (simp add: content_pass_def group_canvas_def forEach_step_def bbox_step_def
      BoundingBox_new_def is_group_def node_g1_def node_n1_def)

lemma overlap_canvas_pass:
  "content_pass overlap_canvas =
     (\<lparr>minX = 0, minY = 0, maxX = 65, maxY = 65\<rparr>, [], [(''a'', node_a), (''b'', node_b)])"
  by (simp add: content_pass_def overlap_canvas_def forEach_step_def bbox_step_def
      BoundingBox_new_def is_group_def node_a_def node_b_def)

lemma overlap_canvas_bbox:
  "content_bbox overlap_canvas = \<lparr>minX = 0, minY = 0, maxX = 65, maxY = 65\<rparr>"
  by (simp add: content_bbox_def overlap_canvas_pass)

text \<open>
  C1, as amended. For every canvas snapshot the content bounding box is the minimum of 0
  and all node \<open>x\<close> (resp. \<open>y\<close>) and the maximum of 0 and all node \<open>x + width\<close> (resp.
  \<open>y + height\<close>): the accumulation starts from the zero box, so the origin always takes
  part. For an empty node set the result is the zero box, which is not valid.
\<close>

theorem content_bbox_with_origin:
  "minX (content_bbox c) = Min (insert 0 (node_x ` set (map snd (nodes c))))
   \<and> minY (content_bbox c) = Min (insert 0 (node_y ` set (map snd (nodes c))))
   \<and> maxX (content_bbox c)
       = Max (insert 0 ((\<lambda>n. node_x n + node_width n) ` set (map snd (nodes c))))
   \<and> maxY (content_bbox c)
       = Max (insert 0 ((\<lambda>n. node_y n + node_height n) ` set (map snd (nodes c))))
   \<and> content_bbox \<lparr>nodes = [], edges = es\<rparr> = \<lparr>minX = 0, minY = 0, maxX = 0, maxY = 0\<rparr>
   \<and> \<not> BoundingBox_isValid (content_bbox \<lparr>nodes = [], edges = es\<rparr>)"
  by (simp add: content_bbox_fields content_bbox_empty BoundingBox_new_def
      BoundingBox_isValid_def)

text \<open>
  C1 as stated fails: for the single node \<open>a\<close> at (40, 40) the box starts at 0, not at
  the least node \<open>x\<close>, which is 40.
\<close>

theorem content_bbox_not_exact_counterexample:
  "minX (content_bbox \<lparr>nodes = [(''a'', node_a)], edges = []\<rparr>)
     \<noteq> Min (node_x ` set (map snd (nodes \<lparr>nodes = [(''a'', node_a)], edges = []\<rparr>)))"
  by (simp add: content_bbox_foldl bbox_step_def BoundingBox_new_def node_a_def)

text \<open>
  C9. For every canvas snapshot the content bounding box contains the world origin, and
  the margin-padded box is valid whenever the margin is positive, also for an empty node
  set.
\<close>

theorem content_bbox_contains_origin:
  "minX (content_bbox c) \<le> 0 \<and> 0 \<le> maxX (content_bbox c)
   \<and> minY (content_bbox c) \<le> 0 \<and> 0 \<le> maxY (content_bbox c)
   \<and> (0 < margin s \<longrightarrow> BoundingBox_isValid (padded_bounds s (content_bbox c)))"
proof -
  have lo: "minX (content_bbox c) \<le> 0" "minY (content_bbox c) \<le> 0"
    by (simp_all add: content_bbox_fields)
  have hi: "0 \<le> maxX (content_bbox c)" "0 \<le> maxY (content_bbox c)"
    by (simp_all add: content_bbox_fields)
  from lo hi show ?thesis
    by (auto simp: BoundingBox_isValid_def padded_bounds_def)
qed

theorem content_bbox_contains_origin_witness:
  "0 < margin DEFAULT_SETTINGS
   \<and> BoundingBox_isValid
       (padded_bounds DEFAULT_SETTINGS (content_bbox \<lparr>nodes = [], edges = []\<rparr>))
   \<and> minX (content_bbox \<lparr>nodes = [(''a'', node_a)], edges = []\<rparr>) = 0"
  using content_bbox_contains_origin [of "\<lparr>nodes = [], edges = []\<rparr>" DEFAULT_SETTINGS]
  by (simp add: DEFAULT_SETTINGS_def content_bbox_foldl bbox_step_def BoundingBox_new_def
      node_a_def)

subsection \<open>The stored view box\<close>

lemma renderMinimap_bounds:
  "fst (renderMinimap s c) = padded_bounds s (content_bbox c)"
  by (cases "content_pass c") (simp add: renderMinimap_def content_bbox_def Let_def)

lemma renderMinimap_viewBox:
  "snd (renderMinimap s c) = Inr scene \<Longrightarrow>
     viewBox scene
       = (minX (padded_bounds s (content_bbox c)), minY (padded_bounds s (content_bbox c)),
          BoundingBox_width (padded_bounds s (content_bbox c)),
          BoundingBox_height (padded_bounds s (content_bbox c)))"
  by (cases "content_pass c")
     (auto simp: renderMinimap_def content_bbox_def Let_def split: sum.splits)

lemma overlap_canvas_render:
  "snd (renderMinimap DEFAULT_SETTINGS overlap_canvas)
     = Inr \<lparr>viewBox = (- 100, - 100, 265, 265), svg_width = 400, svg_height = 300,
            rect_elements = [viewport_rect, node_rect node_a, node_rect node_b],
            path_elements = []\<rparr>"
  by (simp add: renderMinimap_def overlap_canvas_pass padded_bounds_def Let_def)
     (simp add: overlap_canvas_def BoundingBox_width_def BoundingBox_height_def
        DEFAULT_SETTINGS_def)

text \<open>
  C7. For every canvas snapshot and margin, the stored \<^verbatim>\<open>canvas_bounds\<close> is the computed
  content box expanded by the margin on all four sides, and the \<^verbatim>\<open>viewBox\<close> of a
  rendered scene is that box as (x, y, width, height). For \<open>g1\<close> and \<open>n1\<close> with margin
  10 the view box is (-10, -10, 220, 220).
\<close>

theorem canvas_bounds_padded:
  "fst (renderMinimap s c) =
     \<lparr>minX = minX (content_bbox c) - margin s, minY = minY (content_bbox c) - margin s,
      maxX = maxX (content_bbox c) + margin s, maxY = maxY (content_bbox c) + margin s\<rparr>
   \<and> (\<forall>scene. snd (renderMinimap s c) = Inr scene \<longrightarrow>
         viewBox scene
           = (minX (content_bbox c) - margin s, minY (content_bbox c) - margin s,
              (maxX (content_bbox c) + margin s) - (minX (content_bbox c) - margin s),
              (maxY (content_bbox c) + margin s) - (minY (content_bbox c) - margin s)))
   \<and> (\<exists>scene. snd (renderMinimap (DEFAULT_SETTINGS\<lparr>margin := 10\<rparr>) group_canvas) = Inr scene
         \<and> viewBox scene = (- 10, - 10, 220, 220))"
proof -
  have stored: "fst (renderMinimap s c) =
     \<lparr>minX = minX (content_bbox c) - margin s, minY = minY (content_bbox c) - margin s,
      maxX = maxX (content_bbox c) + margin s, maxY = maxY (content_bbox c) + margin s\<rparr>"
    by (simp add: renderMinimap_bounds padded_bounds_def)
  have box: "\<forall>scene. snd (renderMinimap s c) = Inr scene \<longrightarrow>
         viewBox scene
           = (minX (content_bbox c) - margin s, minY (content_bbox c) - margin s,
              (maxX (content_bbox c) + margin s) - (minX (content_bbox c) - margin s),
              (maxY (content_bbox c) + margin s) - (minY (content_bbox c) - margin s))"
    by (auto dest!: renderMinimap_viewBox
        simp: padded_bounds_def BoundingBox_width_def BoundingBox_height_def)
  have example:
    "\<exists>scene. snd (renderMinimap (DEFAULT_SETTINGS\<lparr>margin := 10\<rparr>) group_canvas) = Inr scene
         \<and> viewBox scene = (- 10, - 10, 220, 220)"
    by (simp add: renderMinimap_def group_canvas_pass padded_bounds_def Let_def)
       (simp add: group_canvas_def BoundingBox_width_def BoundingBox_height_def)
  from stored box example show ?thesis by blast
qed

theorem canvas_bounds_padded_witness:
  "(\<exists>scene. snd (renderMinimap DEFAULT_SETTINGS overlap_canvas) = Inr scene
       \<and> viewBox scene = (- 100, - 100, 265, 265))
   \<and> fst (renderMinimap DEFAULT_SETTINGS overlap_canvas)
       = \<lparr>minX = - 100, minY = - 100, maxX = 165, maxY = 165\<rparr>"
proof -
  have m: "margin DEFAULT_SETTINGS = 100"
    by (simp add: DEFAULT_SETTINGS_def)
  show ?thesis
    using canvas_bounds_padded [of DEFAULT_SETTINGS overlap_canvas]
    by (simp add: overlap_canvas_render overlap_canvas_bbox m)
qed

subsection \<open>Side midpoints and edge paths\<close>

text \<open>
  C6. For every node, \<^verbatim>\<open>sidePositionOf\<close> returns the centre (x + width/2, y + height/2)
  moved by minus or plus half the width in x for "left" and "right", and by minus or
  plus half the height in y for "top" and "bottom"; for any other side it throws an
  error whose message names the side.
\<close>

theorem sidePositionOf_sides:
  "sidePositionOf n ''left''
     = Inr \<lparr>vx = (node_x n + node_width n / 2) - node_width n / 2,
            vy = node_y n + node_height n / 2\<rparr>
   \<and> sidePositionOf n ''right''
     = Inr \<lparr>vx = (node_x n + node_width n / 2) + node_width n / 2,
            vy = node_y n + node_height n / 2\<rparr>
   \<and> sidePositionOf n ''top''
     = Inr \<lparr>vx = node_x n + node_width n / 2,
            vy = (node_y n + node_height n / 2) - node_height n / 2\<rparr>
   \<and> sidePositionOf n ''bottom''
     = Inr \<lparr>vx = node_x n + node_width n / 2,
            vy = (node_y n + node_height n / 2) + node_height n / 2\<rparr>
   \<and> (side \<notin> {''left'', ''right'', ''top'', ''bottom''} \<longrightarrow>
         sidePositionOf n side = Inl (Error (''invalid side '' @ side)))"
  by (simp add: sidePositionOf_def Vector2_add_def Vector2_sub_def Let_def)

theorem sidePositionOf_sides_witness:
  "''middle'' \<notin> {''left'', ''right'', ''top'', ''bottom''}
   \<and> sidePositionOf node_n1 ''middle'' = Inl (Error ''invalid side middle'')
   \<and> sidePositionOf node_n1 ''left'' = Inr \<lparr>vx = 50, vy = 60\<rparr>
   \<and> sidePositionOf node_n1 ''bottom'' = Inr \<lparr>vx = 60, vy = 70\<rparr>"
  using sidePositionOf_sides [of node_n1 "''middle''"]
  by (simp add: node_n1_def)

text \<open>
  Where the edge object carries a \<^verbatim>\<open>fromSide\<close> equal to its \<^verbatim>\<open>from.side\<close>, the link is
  horizontal for "left" and "right" and vertical otherwise, between the two side
  midpoints.
\<close>

lemma render_edge_agreeing_sides:
  assumes "fromSide e = Some (from_side e)"
    and "render_edge e = Inr path"
  shows "path_link path
           = (if from_side e = ''left'' \<or> from_side e = ''right'' then linkHorizontal
              else linkVertical)
       \<and> sidePositionOf (from_node e) (from_side e) = Inr (path_source path)
       \<and> sidePositionOf (to_node e) (to_side e) = Inr (path_target path)"
  using assms by (auto simp: render_edge_def linkAnchor_def split: sum.splits)

text \<open>
  C8 fails on the code. The anchor points are computed from \<^verbatim>\<open>e.from.side\<close> and
  \<^verbatim>\<open>e.to.side\<close>, but the link generator is chosen from \<^verbatim>\<open>e.fromSide\<close>: an edge that
  leaves its source on the "right" side and has no \<^verbatim>\<open>fromSide\<close> property is drawn with
  the vertical link generator, from (60, 50) to (100, 0).
\<close>

theorem edge_right_side_drawn_vertical:
  "render_edge edge_right_top
     = Inr \<lparr>path_link = linkVertical, path_source = \<lparr>vx = 60, vy = 50\<rparr>,
            path_target = \<lparr>vx = 100, vy = 0\<rparr>\<rparr>"
  by (simp add: render_edge_def edge_right_top_def sidePositionOf_def linkAnchor_def
      Vector2_add_def Vector2_sub_def node_a_def node_g1_def Let_def)

subsection \<open>Containment\<close>

text \<open>
  C10. \<^verbatim>\<open>BoundingBox.contains\<close> is inclusive on all four boundaries: it holds exactly
  when \<open>minX \<le> p.x \<le> maxX\<close> and \<open>minY \<le> p.y \<le> maxY\<close>, so the four corners of a box
  are contained, and a click on the border of the rendered extent is not rejected but
  goes on to the hit test.
\<close>

theorem contains_inclusive:
  "(BoundingBox_contains b p \<longleftrightarrow>
      minX b \<le> vx p \<and> vx p \<le> maxX b \<and> minY b \<le> vy p \<and> vy p \<le> maxY b)
   \<and> (minX b \<le> maxX b \<and> minY b \<le> maxY b \<longrightarrow>
        BoundingBox_contains b \<lparr>vx = minX b, vy = minY b\<rparr>
      \<and> BoundingBox_contains b \<lparr>vx = maxX b, vy = minY b\<rparr>
      \<and> BoundingBox_contains b \<lparr>vx = minX b, vy = maxY b\<rparr>
      \<and> BoundingBox_contains b \<lparr>vx = maxX b, vy = maxY b\<rparr>)
   \<and> (minX (BoundingBox_fromRect g) \<le> vx p \<and> vx p \<le> maxX (BoundingBox_fromRect g)
      \<and> minY (BoundingBox_fromRect g) \<le> vy p \<and> vy p \<le> maxY (BoundingBox_fromRect g)
      \<and> (vx p = minX (BoundingBox_fromRect g) \<or> vx p = maxX (BoundingBox_fromRect g)
         \<or> vy p = minY (BoundingBox_fromRect g) \<or> vy p = maxY (BoundingBox_fromRect g)) \<longrightarrow>
        svg_click s ctrl p g rects ac
          = (case resolve_target p rects ac of
               Inl err \<Rightarrow> Inl err
             | Inr None \<Rightarrow> Inr None
             | Inr (Some bbox) \<Rightarrow> Inr (navigate s ctrl bbox)))"
  by (auto simp: BoundingBox_contains_def svg_click_def Let_def)

theorem contains_inclusive_witness:
  "svg_click DEFAULT_SETTINGS False \<lparr>vx = 0, vy = 100\<rparr>
      (Some \<lparr>rect_x = 0, rect_y = 0, rect_width = 200, rect_height = 200\<rparr>)
      [viewport_rect, node_rect node_g1, node_rect node_n1] (Some group_canvas)
     = Inr (Some (zoomToBbox \<lparr>minX = 0, minY = 0, maxX = 200, maxY = 200\<rparr>))
   \<and> BoundingBox_contains \<lparr>minX = 0, minY = 0, maxX = 200, maxY = 200\<rparr> \<lparr>vx = 200, vy = 0\<rparr>"
  using contains_inclusive [of "\<lparr>minX = 0, minY = 0, maxX = 200, maxY = 200\<rparr>"
      "\<lparr>vx = 0, vy = 100\<rparr>"
      "Some \<lparr>rect_x = 0, rect_y = 0, rect_width = 200, rect_height = 200\<rparr>"
      DEFAULT_SETTINGS False "[viewport_rect, node_rect node_g1, node_rect node_n1]"
      "Some group_canvas"]
  by (simp add: BoundingBox_fromRect_def resolve_target_def hit_rects_def viewport_rect_def
      node_rect_def node_g1_def node_n1_def BoundingBox_contains_def group_canvas_def
      Vector2_lenSq_def navigate_def DEFAULT_SETTINGS_def Let_def)

subsection \<open>Hit test and navigation\<close>

text \<open>
  The loop keeps a box that is no farther from the click point than the start box and
  than every box it has visited, and that is the start box or one of the visited ones.
\<close>

lemma focus_nearest_min:
  assumes "None \<notin> set ts"
  shows "\<exists>b'. focus_nearest p ts b (corner_distSq p b) = Inr b'
           \<and> (b' = b \<or> (\<exists>n. Some n \<in> set ts \<and> b' = node_bbox n))
           \<and> corner_distSq p b' \<le> corner_distSq p b
           \<and> (\<forall>n. Some n \<in> set ts \<longrightarrow> corner_distSq p b' \<le> corner_distSq p (node_bbox n))"
  using assms
proof (induction ts arbitrary: b)
  case Nil
  show ?case by simp
next
  case (Cons t ts)
  from Cons.prems obtain n where t: "t = Some n" by (cases t) auto
  from Cons.prems have rest: "None \<notin> set ts" by simp
  show ?case
  proof (cases "corner_distSq p (node_bbox n) < corner_distSq p b")
    case True
    from Cons.IH [OF rest, of "node_bbox n"] obtain b' where
      r: "focus_nearest p ts (node_bbox n) (corner_distSq p (node_bbox n)) = Inr b'"
      and m: "b' = node_bbox n \<or> (\<exists>k. Some k \<in> set ts \<and> b' = node_bbox k)"
      and le: "corner_distSq p b' \<le> corner_distSq p (node_bbox n)"
      and all: "\<forall>k. Some k \<in> set ts \<longrightarrow> corner_distSq p b' \<le> corner_distSq p (node_bbox k)"
      by blast
    have "focus_nearest p (t # ts) b (corner_distSq p b) = Inr b'"
      using True r by (simp add: t Let_def)
    moreover have "b' = b \<or> (\<exists>k. Some k \<in> set (t # ts) \<and> b' = node_bbox k)"
      using m t by auto
    moreover have "corner_distSq p b' \<le> corner_distSq p b"
      using le True by linarith
    moreover have "\<forall>k. Some k \<in> set (t # ts) \<longrightarrow> corner_distSq p b' \<le> corner_distSq p (node_bbox k)"
      using all le t by auto
    ultimately show ?thesis by blast
  next
    case False
    from Cons.IH [OF rest, of b] obtain b' where
      r: "focus_nearest p ts b (corner_distSq p b) = Inr b'"
      and m: "b' = b \<or> (\<exists>k. Some k \<in> set ts \<and> b' = node_bbox k)"
      and le: "corner_distSq p b' \<le> corner_distSq p b"
      and all: "\<forall>k. Some k \<in> set ts \<longrightarrow> corner_distSq p b' \<le> corner_distSq p (node_bbox k)"
      by blast
    have "focus_nearest p (t # ts) b (corner_distSq p b) = Inr b'"
      using False r by (simp add: t Let_def)
    moreover have "b' = b \<or> (\<exists>k. Some k \<in> set (t # ts) \<and> b' = node_bbox k)"
      using m by auto
    moreover have "\<forall>k. Some k \<in> set (t # ts) \<longrightarrow> corner_distSq p b' \<le> corner_distSq p (node_bbox k)"
    proof (intro allI impI)
      fix k assume "Some k \<in> set (t # ts)"
      then consider "k = n" | "Some k \<in> set ts" using t by auto
      then show "corner_distSq p b' \<le> corner_distSq p (node_bbox k)"
      proof cases
        case 1 then show ?thesis using le False by simp
      next
        case 2 then show ?thesis using all by blast
      qed
    qed
    ultimately show ?thesis using le by blast
  qed
qed

lemma resolve_target_nearest:
  assumes hits: "hit_rects p rects \<noteq> []"
    and found: "\<forall>r \<in> set (hit_rects p rects). map_of (nodes c) (element_id r) \<noteq> None"
  shows "\<exists>r \<in> set (hit_rects p rects). \<exists>n.
           map_of (nodes c) (element_id r) = Some n
         \<and> resolve_target p rects (Some c) = Inr (Some (node_bbox n))
         \<and> (\<forall>r' \<in> set (hit_rects p rects). \<forall>n'. map_of (nodes c) (element_id r') = Some n'
               \<longrightarrow> corner_distSq p (node_bbox n) \<le> corner_distSq p (node_bbox n'))"
proof -
  obtain r0 rs where hr: "hit_rects p rects = r0 # rs"
    using hits by (cases "hit_rects p rects") auto
  define ts where "ts = map (\<lambda>n. map_of (nodes c) (element_id n)) (r0 # rs)"
  have none: "None \<notin> set ts"
    using found by (auto simp: ts_def hr)
  obtain n0 where n0: "map_of (nodes c) (element_id r0) = Some n0"
    using found hr by auto
  from focus_nearest_min [OF none, of p "node_bbox n0"] obtain b' where
    r: "focus_nearest p ts (node_bbox n0) (corner_distSq p (node_bbox n0)) = Inr b'"
    and m: "b' = node_bbox n0 \<or> (\<exists>k. Some k \<in> set ts \<and> b' = node_bbox k)"
    and all: "\<forall>k. Some k \<in> set ts \<longrightarrow> corner_distSq p b' \<le> corner_distSq p (node_bbox k)"
    by blast
  have "Some n0 \<in> set ts" by (simp add: ts_def n0)
  with m obtain k where k: "Some k \<in> set ts" "b' = node_bbox k" by blast
  from k(1) have "\<exists>r \<in> set (r0 # rs). map_of (nodes c) (element_id r) = Some k"
    unfolding ts_def by (metis (mono_tags, lifting) imageE list.set_map)
  then obtain r where rin: "r \<in> set (hit_rects p rects)"
    and rk: "map_of (nodes c) (element_id r) = Some k"
    unfolding hr by blast
  have res: "resolve_target p rects (Some c) = Inr (Some (node_bbox k))"
    using r k(2) by (simp add: resolve_target_def hr n0 ts_def Let_def)
  have "\<forall>r' \<in> set (hit_rects p rects). \<forall>n'. map_of (nodes c) (element_id r') = Some n'
          \<longrightarrow> corner_distSq p (node_bbox k) \<le> corner_distSq p (node_bbox n')"
  proof (intro ballI allI impI)
    fix r' n' assume "r' \<in> set (hit_rects p rects)" "map_of (nodes c) (element_id r') = Some n'"
    then have "Some n' \<in> set ts" by (force simp: ts_def hr)
    then show "corner_distSq p (node_bbox k) \<le> corner_distSq p (node_bbox n')"
      using all k(2) by blast
  qed
  with rin rk res show ?thesis by blast
qed

lemma svg_click_inside:
  "BoundingBox_contains (BoundingBox_fromRect g) p \<Longrightarrow> resolve_target p rects ac = Inr (Some b)
     \<Longrightarrow> svg_click s ctrl p g rects ac = Inr (navigate s ctrl b)"
  by (simp add: svg_click_def Let_def)

lemma overlap_click_ab:
  "svg_click DEFAULT_SETTINGS False \<lparr>vx = 50, vy = 50\<rparr>
      (Some \<lparr>rect_x = 0, rect_y = 0, rect_width = 65, rect_height = 65\<rparr>)
      [viewport_rect, node_rect node_a, node_rect node_b] (Some overlap_canvas)
     = Inr (Some (zoomToBbox (node_bbox node_b)))"
  by (simp add: svg_click_def BoundingBox_fromRect_def resolve_target_def hit_rects_def viewport_rect_def
      node_rect_def node_a_def node_b_def BoundingBox_contains_def overlap_canvas_def
      Vector2_lenSq_def navigate_def DEFAULT_SETTINGS_def Let_def)

lemma overlap_click_ba:
  "svg_click DEFAULT_SETTINGS False \<lparr>vx = 50, vy = 50\<rparr>
      (Some \<lparr>rect_x = 0, rect_y = 0, rect_width = 65, rect_height = 65\<rparr>)
      [viewport_rect, node_rect node_b, node_rect node_a] (Some overlap_canvas)
     = Inr (Some (zoomToBbox (node_bbox node_b)))"
  by (simp add: svg_click_def BoundingBox_fromRect_def resolve_target_def hit_rects_def viewport_rect_def
      node_rect_def node_a_def node_b_def BoundingBox_contains_def overlap_canvas_def
      Vector2_lenSq_def navigate_def DEFAULT_SETTINGS_def Let_def)

lemma group_click_resolve:
  "resolve_target \<lparr>vx = 60, vy = 60\<rparr> [viewport_rect, node_rect node_g1, node_rect node_n1]
     (Some group_canvas) = Inr (Some (node_bbox node_n1))"
  by (simp add: resolve_target_def hit_rects_def viewport_rect_def node_rect_def node_g1_def
      node_n1_def BoundingBox_contains_def BoundingBox_fromRect_def group_canvas_def
      Vector2_lenSq_def Let_def)

text \<open>
  The rectangles of a scene are the indicator and the renderings of nodes of the
  snapshot. Where the snapshot keys each node by its \<^verbatim>\<open>id\<close> and each node's \<^verbatim>\<open>bbox\<close>
  starts at its (x, y), every hit rectangle of the scene rendered from the snapshot
  resolves to its node, with the same top-left corner.
\<close>

lemma set_update_subset: "set (AList.update k v al) \<subseteq> insert (k, v) (set al)"
  by (induction al) auto

lemma forEach_step_entries:
  assumes "forEach_step (b, gs, cs) n = (b', gs', cs')"
  shows "set gs' \<union> set cs' \<subseteq> insert (node_id n, n) (set gs \<union> set cs)"
  using assms set_update_subset [of "node_id n" n gs] set_update_subset [of "node_id n" n cs]
  by (auto simp: forEach_step_def split: if_splits)

lemma foldl_forEach_step_entries:
  "foldl forEach_step (b, gs, cs) ns = (b', gs', cs')
     \<Longrightarrow> set gs' \<union> set cs' \<subseteq> set gs \<union> set cs \<union> (\<lambda>n. (node_id n, n)) ` set ns"
proof (induction ns arbitrary: b gs cs)
  case Nil
  then show ?case by simp
next
  case (Cons n ns)
  obtain b1 gs1 cs1 where step: "forEach_step (b, gs, cs) n = (b1, gs1, cs1)"
    by (cases "forEach_step (b, gs, cs) n") auto
  with Cons.prems have "foldl forEach_step (b1, gs1, cs1) ns = (b', gs', cs')" by simp
  from Cons.IH [OF this] forEach_step_entries [OF step] show ?case by auto
qed

lemma rendered_rects_are_nodes:
  assumes "snd (renderMinimap s c) = Inr scene" and "r \<in> set (rect_elements scene)"
  shows "r = viewport_rect \<or> (\<exists>n \<in> snd ` set (nodes c). r = node_rect n)"
proof -
  obtain b gs cs where pass: "content_pass c = (b, gs, cs)"
    by (cases "content_pass c") auto
  then have "set gs \<union> set cs \<subseteq> (\<lambda>n. (node_id n, n)) ` set (map snd (nodes c))"
    using foldl_forEach_step_entries [of BoundingBox_new "[]" "[]" "map snd (nodes c)" b gs cs]
    by (simp add: content_pass_def)
  then have vals: "snd ` (set gs \<union> set cs) \<subseteq> snd ` set (nodes c)"
    by force
  from assms pass have "r \<in> set (viewport_rect # map (node_rect \<circ> snd) gs @ map (node_rect \<circ> snd) cs)"
    by (auto simp: renderMinimap_def Let_def split: sum.splits)
  then have "r = viewport_rect \<or> r \<in> node_rect ` snd ` (set gs \<union> set cs)"
    by (simp add: image_Un image_comp)
  with vals show ?thesis by blast
qed

lemma rendered_rects_fresh:
  assumes keys: "\<forall>(k, n) \<in> set (nodes c). node_id n = k"
    and dist: "distinct (map fst (nodes c))"
    and host: "\<forall>(k, n) \<in> set (nodes c).
                 minX (node_bbox n) = node_x n \<and> minY (node_bbox n) = node_y n"
    and scene: "snd (renderMinimap s c) = Inr scene"
  shows "\<forall>r \<in> set (hit_rects p (rect_elements scene)). \<exists>n.
            map_of (nodes c) (element_id r) = Some n
          \<and> minX (node_bbox n) = rect_x (element_bbox r)
          \<and> minY (node_bbox n) = rect_y (element_bbox r)"
proof
  fix r assume "r \<in> set (hit_rects p (rect_elements scene))"
  then have rin: "r \<in> set (rect_elements scene)" and nv: "element_id r \<noteq> ''minimap_viewport''"
    by (auto simp: hit_rects_def Let_def)
  from rendered_rects_are_nodes [OF scene rin] nv
  obtain k n where kn: "(k, n) \<in> set (nodes c)" and r: "r = node_rect n"
    by (auto simp: viewport_rect_def)
  from keys kn have "k = node_id n" by auto
  with kn dist have "map_of (nodes c) (node_id n) = Some n"
    by simp
  moreover from host kn have "minX (node_bbox n) = node_x n" "minY (node_bbox n) = node_y n"
    by auto
  ultimately show "\<exists>n. map_of (nodes c) (element_id r) = Some n
          \<and> minX (node_bbox n) = rect_x (element_bbox r)
          \<and> minY (node_bbox n) = rect_y (element_bbox r)"
    by (simp add: r node_rect_def)
qed

text \<open>
  The hit test, written out: a rectangle is hit when it is not the viewport indicator and
  the click point lies within it, borders included.
\<close>

lemma hit_rects_iff:
  "r \<in> set (hit_rects p rects) \<longleftrightarrow>
     r \<in> set rects \<and> element_id r \<noteq> ''minimap_viewport''
   \<and> rect_x (element_bbox r) \<le> vx p \<and> vx p \<le> rect_x (element_bbox r) + rect_width (element_bbox r)
   \<and> rect_y (element_bbox r) \<le> vy p \<and> vy p \<le> rect_y (element_bbox r) + rect_height (element_bbox r)"
  by (auto simp: hit_rects_def BoundingBox_contains_def BoundingBox_fromRect_def Let_def)

text \<open>
  C3, as amended. For a click inside the rendered extent, when at least one rendered
  node rectangle (the viewport indicator excluded) contains the point and the id of
  every such rectangle resolves to a node of the active canvas, the resolved target is
  the \<^verbatim>\<open>bbox\<close> of the node of one of these rectangles, and the top-left corner of that
  \<^verbatim>\<open>bbox\<close>, as the canvas holds it at the time of the click, has the least squared
  distance to the click point among the nodes of all these rectangles. Where each of
  these nodes still has the top-left corner of its rectangle, the rectangle of the
  target is the one with the nearest top-left corner. For the two rectangles with
  corners (40, 40) and (45, 45) of nodes that have not moved and the click (50, 50), the
  node at (45, 45) is selected, in either document order.
\<close>

theorem nearest_node_corner_selected:
  "(BoundingBox_contains (BoundingBox_fromRect g) p
      \<and> (\<exists>r \<in> set rects. element_id r \<noteq> ''minimap_viewport''
            \<and> rect_x (element_bbox r) \<le> vx p
            \<and> vx p \<le> rect_x (element_bbox r) + rect_width (element_bbox r)
            \<and> rect_y (element_bbox r) \<le> vy p
            \<and> vy p \<le> rect_y (element_bbox r) + rect_height (element_bbox r))
      \<and> (\<forall>r \<in> set rects. element_id r \<noteq> ''minimap_viewport''
            \<and> rect_x (element_bbox r) \<le> vx p
            \<and> vx p \<le> rect_x (element_bbox r) + rect_width (element_bbox r)
            \<and> rect_y (element_bbox r) \<le> vy p
            \<and> vy p \<le> rect_y (element_bbox r) + rect_height (element_bbox r)
            \<longrightarrow> map_of (nodes c) (element_id r) \<noteq> None)
    \<longrightarrow> (\<exists>r \<in> set rects. \<exists>n.
            element_id r \<noteq> ''minimap_viewport''
          \<and> rect_x (element_bbox r) \<le> vx p
          \<and> vx p \<le> rect_x (element_bbox r) + rect_width (element_bbox r)
          \<and> rect_y (element_bbox r) \<le> vy p
          \<and> vy p \<le> rect_y (element_bbox r) + rect_height (element_bbox r)
          \<and> map_of (nodes c) (element_id r) = Some n
          \<and> resolve_target p rects (Some c) = Inr (Some (node_bbox n))
          \<and> svg_click s ctrl p g rects (Some c) = Inr (navigate s ctrl (node_bbox n))
          \<and> (\<forall>r' \<in> set rects. \<forall>n'.
                element_id r' \<noteq> ''minimap_viewport''
              \<and> rect_x (element_bbox r') \<le> vx p
              \<and> vx p \<le> rect_x (element_bbox r') + rect_width (element_bbox r')
              \<and> rect_y (element_bbox r') \<le> vy p
              \<and> vy p \<le> rect_y (element_bbox r') + rect_height (element_bbox r')
              \<and> map_of (nodes c) (element_id r') = Some n'
              \<longrightarrow> corner_distSq p (node_bbox n) \<le> corner_distSq p (node_bbox n'))
          \<and> ((\<forall>r' \<in> set rects. \<forall>n'.
                  element_id r' \<noteq> ''minimap_viewport''
                \<and> rect_x (element_bbox r') \<le> vx p
                \<and> vx p \<le> rect_x (element_bbox r') + rect_width (element_bbox r')
                \<and> rect_y (element_bbox r') \<le> vy p
                \<and> vy p \<le> rect_y (element_bbox r') + rect_height (element_bbox r')
                \<and> map_of (nodes c) (element_id r') = Some n'
                \<longrightarrow> minX (node_bbox n') = rect_x (element_bbox r')
                  \<and> minY (node_bbox n') = rect_y (element_bbox r'))
              \<longrightarrow> (\<forall>r' \<in> set rects.
                    element_id r' \<noteq> ''minimap_viewport''
                  \<and> rect_x (element_bbox r') \<le> vx p
                  \<and> vx p \<le> rect_x (element_bbox r') + rect_width (element_bbox r')
                  \<and> rect_y (element_bbox r') \<le> vy p
                  \<and> vy p \<le> rect_y (element_bbox r') + rect_height (element_bbox r')
                  \<longrightarrow> Vector2_lenSq \<lparr>vx = rect_x (element_bbox r) - vx p,
                                      vy = rect_y (element_bbox r) - vy p\<rparr>
                    \<le> Vector2_lenSq \<lparr>vx = rect_x (element_bbox r') - vx p,
                                      vy = rect_y (element_bbox r') - vy p\<rparr>))))
   \<and> svg_click DEFAULT_SETTINGS False \<lparr>vx = 50, vy = 50\<rparr>
        (Some \<lparr>rect_x = 0, rect_y = 0, rect_width = 65, rect_height = 65\<rparr>)
        [viewport_rect, node_rect node_a, node_rect node_b] (Some overlap_canvas)
       = Inr (Some (zoomToBbox (node_bbox node_b)))
   \<and> svg_click DEFAULT_SETTINGS False \<lparr>vx = 50, vy = 50\<rparr>
        (Some \<lparr>rect_x = 0, rect_y = 0, rect_width = 65, rect_height = 65\<rparr>)
        [viewport_rect, node_rect node_b, node_rect node_a] (Some overlap_canvas)
       = Inr (Some (zoomToBbox (node_bbox node_b)))"
proof -
  let ?hit = "\<lambda>r. r \<in> set (hit_rects p rects)"
  have general:
    "\<exists>r n. ?hit r
          \<and> map_of (nodes c) (element_id r) = Some n
          \<and> resolve_target p rects (Some c) = Inr (Some (node_bbox n))
          \<and> svg_click s ctrl p g rects (Some c) = Inr (navigate s ctrl (node_bbox n))
          \<and> (\<forall>r' n'. ?hit r' \<and> map_of (nodes c) (element_id r') = Some n'
                \<longrightarrow> corner_distSq p (node_bbox n) \<le> corner_distSq p (node_bbox n'))
          \<and> ((\<forall>r' n'. ?hit r' \<and> map_of (nodes c) (element_id r') = Some n'
                  \<longrightarrow> minX (node_bbox n') = rect_x (element_bbox r')
                    \<and> minY (node_bbox n') = rect_y (element_bbox r'))
              \<longrightarrow> (\<forall>r'. ?hit r'
                    \<longrightarrow> Vector2_lenSq \<lparr>vx = rect_x (element_bbox r) - vx p,
                                      vy = rect_y (element_bbox r) - vy p\<rparr>
                      \<le> Vector2_lenSq \<lparr>vx = rect_x (element_bbox r') - vx p,
                                      vy = rect_y (element_bbox r') - vy p\<rparr>))"
    if inside: "BoundingBox_contains (BoundingBox_fromRect g) p"
      and some: "\<exists>r. ?hit r"
      and found: "\<forall>r. ?hit r \<longrightarrow> map_of (nodes c) (element_id r) \<noteq> None"
  proof -
    from some have hits: "hit_rects p rects \<noteq> []" by auto
    from found have found': "\<forall>r \<in> set (hit_rects p rects). map_of (nodes c) (element_id r) \<noteq> None"
      by blast
    from resolve_target_nearest [OF hits found'] obtain r n where
      rin: "?hit r"
      and rn: "map_of (nodes c) (element_id r) = Some n"
      and res: "resolve_target p rects (Some c) = Inr (Some (node_bbox n))"
      and least: "\<forall>r' \<in> set (hit_rects p rects). \<forall>n'. map_of (nodes c) (element_id r') = Some n'
               \<longrightarrow> corner_distSq p (node_bbox n) \<le> corner_distSq p (node_bbox n')"
      by blast
    have click: "svg_click s ctrl p g rects (Some c) = Inr (navigate s ctrl (node_bbox n))"
      by (rule svg_click_inside [OF inside res])
    have fresh_case: "\<forall>r'. ?hit r'
                    \<longrightarrow> Vector2_lenSq \<lparr>vx = rect_x (element_bbox r) - vx p,
                                      vy = rect_y (element_bbox r) - vy p\<rparr>
                      \<le> Vector2_lenSq \<lparr>vx = rect_x (element_bbox r') - vx p,
                                      vy = rect_y (element_bbox r') - vy p\<rparr>"
      if fresh: "\<forall>r' n'. ?hit r' \<and> map_of (nodes c) (element_id r') = Some n'
                  \<longrightarrow> minX (node_bbox n') = rect_x (element_bbox r')
                    \<and> minY (node_bbox n') = rect_y (element_bbox r')"
    proof (intro allI impI)
      fix r' assume r': "?hit r'"
      with found obtain n' where n': "map_of (nodes c) (element_id r') = Some n'" by blast
      from fresh r' n' have c': "minX (node_bbox n') = rect_x (element_bbox r')"
        "minY (node_bbox n') = rect_y (element_bbox r')" by blast+
      from fresh rin rn have c: "minX (node_bbox n) = rect_x (element_bbox r)"
        "minY (node_bbox n) = rect_y (element_bbox r)" by blast+
      from least r' n' have "corner_distSq p (node_bbox n) \<le> corner_distSq p (node_bbox n')"
        by blast
      then show "Vector2_lenSq \<lparr>vx = rect_x (element_bbox r) - vx p,
                                      vy = rect_y (element_bbox r) - vy p\<rparr>
                      \<le> Vector2_lenSq \<lparr>vx = rect_x (element_bbox r') - vx p,
                                      vy = rect_y (element_bbox r') - vy p\<rparr>"
        by (simp add: c c')
    qed
    from rin rn res click least fresh_case show ?thesis by blast
  qed
  have examples:
    "svg_click DEFAULT_SETTINGS False \<lparr>vx = 50, vy = 50\<rparr>
        (Some \<lparr>rect_x = 0, rect_y = 0, rect_width = 65, rect_height = 65\<rparr>)
        [viewport_rect, node_rect node_a, node_rect node_b] (Some overlap_canvas)
       = Inr (Some (zoomToBbox (node_bbox node_b)))"
    "svg_click DEFAULT_SETTINGS False \<lparr>vx = 50, vy = 50\<rparr>
        (Some \<lparr>rect_x = 0, rect_y = 0, rect_width = 65, rect_height = 65\<rparr>)
        [viewport_rect, node_rect node_b, node_rect node_a] (Some overlap_canvas)
       = Inr (Some (zoomToBbox (node_bbox node_b)))"
    by (rule overlap_click_ab overlap_click_ba)+
  from general examples show ?thesis
    unfolding hit_rects_iff by blast
qed

theorem nearest_node_corner_selected_witness:
  "BoundingBox_contains
      (BoundingBox_fromRect (Some \<lparr>rect_x = 0, rect_y = 0, rect_width = 71, rect_height = 71\<rparr>))
      \<lparr>vx = 50, vy = 50\<rparr>
   \<and> map_of (nodes three_canvas) (element_id (node_rect node_a)) = Some node_a
   \<and> map_of (nodes three_canvas) (element_id (node_rect node_b)) = Some node_b
   \<and> \<not> BoundingBox_contains (BoundingBox_fromRect (Some (element_bbox (node_rect node_c))))
         \<lparr>vx = 50, vy = 50\<rparr>
   \<and> corner_distSq \<lparr>vx = 50, vy = 50\<rparr> (node_bbox node_c)
       < corner_distSq \<lparr>vx = 50, vy = 50\<rparr> (node_bbox node_b)
   \<and> resolve_target \<lparr>vx = 50, vy = 50\<rparr>
        [viewport_rect, node_rect node_a, node_rect node_b, node_rect node_c]
        (Some three_canvas) = Inr (Some (node_bbox node_b))"
  using nearest_node_corner_selected
    [of "Some \<lparr>rect_x = 0, rect_y = 0, rect_width = 71, rect_height = 71\<rparr>"
      "\<lparr>vx = 50, vy = 50\<rparr>"
      "[viewport_rect, node_rect node_a, node_rect node_b, node_rect node_c]"
      three_canvas DEFAULT_SETTINGS False]
  by (simp add: BoundingBox_fromRect_def BoundingBox_contains_def three_canvas_def
        viewport_rect_def node_rect_def node_a_def node_b_def node_c_def Vector2_lenSq_def)

text \<open>
  C3 as stated fails: the distance is measured on the node's \<^verbatim>\<open>bbox\<close>, not on its
  rectangle. After \<open>a\<close> has been dragged to (49, 49) and before the next render, both
  rectangles still contain the click (50, 50) and the rectangle of \<open>b\<close> has the nearer
  corner, but the moved node \<open>a\<close> is the target.
\<close>

theorem stale_rectangle_counterexample:
  "BoundingBox_contains
      (BoundingBox_fromRect (Some \<lparr>rect_x = 0, rect_y = 0, rect_width = 65, rect_height = 65\<rparr>))
      \<lparr>vx = 50, vy = 50\<rparr>
   \<and> BoundingBox_contains (BoundingBox_fromRect (Some (element_bbox (node_rect node_a))))
        \<lparr>vx = 50, vy = 50\<rparr>
   \<and> BoundingBox_contains (BoundingBox_fromRect (Some (element_bbox (node_rect node_b))))
        \<lparr>vx = 50, vy = 50\<rparr>
   \<and> map_of (nodes moved_canvas) (element_id (node_rect node_a)) = Some node_a_moved
   \<and> svg_click DEFAULT_SETTINGS False \<lparr>vx = 50, vy = 50\<rparr>
        (Some \<lparr>rect_x = 0, rect_y = 0, rect_width = 65, rect_height = 65\<rparr>)
        [viewport_rect, node_rect node_a, node_rect node_b] (Some moved_canvas)
       = Inr (Some (zoomToBbox (node_bbox node_a_moved)))
   \<and> Vector2_lenSq \<lparr>vx = rect_x (element_bbox (node_rect node_b)) - 50,
                      vy = rect_y (element_bbox (node_rect node_b)) - 50\<rparr>
       < Vector2_lenSq \<lparr>vx = rect_x (element_bbox (node_rect node_a)) - 50,
                        vy = rect_y (element_bbox (node_rect node_a)) - 50\<rparr>"
  by (simp add: svg_click_def BoundingBox_fromRect_def resolve_target_def hit_rects_def
      viewport_rect_def node_rect_def node_a_def node_b_def node_a_moved_def
      BoundingBox_contains_def moved_canvas_def Vector2_lenSq_def navigate_def
      DEFAULT_SETTINGS_def Let_def)

text \<open>
  C4. A click that hits no rectangle makes no canvas call and throws nothing. A click
  inside the extent that resolves to a target box uses the secondary strategy when the
  modifier is held and the primary one otherwise: \<open>PAN\<close> calls \<^verbatim>\<open>panTo\<close> with the
  centre ((minX + maxX) / 2, (minY + maxY) / 2), \<open>ZOOM\<close> calls \<^verbatim>\<open>zoomToBbox\<close> with
  the box, \<open>NONE\<close> makes no call.
\<close>

theorem navigation_strategy:
  "(hit_rects p rects = [] \<longrightarrow> svg_click s ctrl p g rects ac = Inr None)
   \<and> (BoundingBox_contains (BoundingBox_fromRect g) p \<and> resolve_target p rects ac = Inr (Some b)
        \<longrightarrow> svg_click s ctrl p g rects ac
              = Inr (case (if ctrl then secondaryNavigationStrategy s
                           else primaryNavigationStrategy s) of
                       PAN \<Rightarrow> Some (panTo ((minX b + maxX b) / 2) ((minY b + maxY b) / 2))
                     | ZOOM \<Rightarrow> Some (zoomToBbox b)
                     | NONE \<Rightarrow> None))"
proof (intro conjI impI)
  assume "hit_rects p rects = []"
  then show "svg_click s ctrl p g rects ac = Inr None"
    by (simp add: svg_click_def resolve_target_def Let_def)
next
  assume a: "BoundingBox_contains (BoundingBox_fromRect g) p \<and> resolve_target p rects ac = Inr (Some b)"
  have centre: "minX b + (maxX b - minX b) / 2 = (minX b + maxX b) / 2"
    "minY b + (maxY b - minY b) / 2 = (minY b + maxY b) / 2"
    by (simp_all add: field_simps)
  have "navigate s ctrl b
          = (case (if ctrl then secondaryNavigationStrategy s else primaryNavigationStrategy s) of
               PAN \<Rightarrow> Some (panTo ((minX b + maxX b) / 2) ((minY b + maxY b) / 2))
             | ZOOM \<Rightarrow> Some (zoomToBbox b)
             | NONE \<Rightarrow> None)"
    unfolding navigate_def Let_def centre
    by (cases "if ctrl then secondaryNavigationStrategy s else primaryNavigationStrategy s") simp_all
  with a show "svg_click s ctrl p g rects ac
              = Inr (case (if ctrl then secondaryNavigationStrategy s
                           else primaryNavigationStrategy s) of
                       PAN \<Rightarrow> Some (panTo ((minX b + maxX b) / 2) ((minY b + maxY b) / 2))
                     | ZOOM \<Rightarrow> Some (zoomToBbox b)
                     | NONE \<Rightarrow> None)"
    by (simp add: svg_click_inside)
qed

theorem navigation_strategy_witness:
  "svg_click DEFAULT_SETTINGS False \<lparr>vx = 60, vy = 60\<rparr>
      (Some \<lparr>rect_x = 0, rect_y = 0, rect_width = 200, rect_height = 200\<rparr>)
      [viewport_rect, node_rect node_g1, node_rect node_n1] (Some group_canvas)
     = Inr (Some (zoomToBbox \<lparr>minX = 50, minY = 50, maxX = 70, maxY = 70\<rparr>))
   \<and> svg_click DEFAULT_SETTINGS True \<lparr>vx = 60, vy = 60\<rparr>
      (Some \<lparr>rect_x = 0, rect_y = 0, rect_width = 200, rect_height = 200\<rparr>)
      [viewport_rect, node_rect node_g1, node_rect node_n1] (Some group_canvas)
     = Inr (Some (panTo 60 60))
   \<and> hit_rects \<lparr>vx = 300, vy = 300\<rparr> [viewport_rect, node_rect node_g1, node_rect node_n1] = []
   \<and> svg_click DEFAULT_SETTINGS False \<lparr>vx = 300, vy = 300\<rparr>
      (Some \<lparr>rect_x = 0, rect_y = 0, rect_width = 400, rect_height = 400\<rparr>)
      [viewport_rect, node_rect node_g1, node_rect node_n1] None
     = Inr None"
proof -
  have inside: "BoundingBox_contains
      (BoundingBox_fromRect (Some \<lparr>rect_x = 0, rect_y = 0, rect_width = 200, rect_height = 200\<rparr>))
      \<lparr>vx = 60, vy = 60\<rparr>"
    by (simp add: BoundingBox_contains_def BoundingBox_fromRect_def)
  have nohit: "hit_rects \<lparr>vx = 300, vy = 300\<rparr> [viewport_rect, node_rect node_g1, node_rect node_n1] = []"
    by (simp add: hit_rects_def viewport_rect_def node_rect_def node_g1_def node_n1_def
        BoundingBox_contains_def BoundingBox_fromRect_def)
  have strat: "primaryNavigationStrategy DEFAULT_SETTINGS = ZOOM"
    "secondaryNavigationStrategy DEFAULT_SETTINGS = PAN"
    by (simp_all add: DEFAULT_SETTINGS_def)
  have box: "node_bbox node_n1 = \<lparr>minX = 50, minY = 50, maxX = 70, maxY = 70\<rparr>"
    by (simp add: node_n1_def)
  show ?thesis
    using navigation_strategy [of "\<lparr>vx = 60, vy = 60\<rparr>"
        "[viewport_rect, node_rect node_g1, node_rect node_n1]" DEFAULT_SETTINGS False
        "Some \<lparr>rect_x = 0, rect_y = 0, rect_width = 200, rect_height = 200\<rparr>"
        "Some group_canvas" "node_bbox node_n1"]
      navigation_strategy [of "\<lparr>vx = 60, vy = 60\<rparr>"
        "[viewport_rect, node_rect node_g1, node_rect node_n1]" DEFAULT_SETTINGS True
        "Some \<lparr>rect_x = 0, rect_y = 0, rect_width = 200, rect_height = 200\<rparr>"
        "Some group_canvas" "node_bbox node_n1"]
      navigation_strategy [of "\<lparr>vx = 300, vy = 300\<rparr>"
        "[viewport_rect, node_rect node_g1, node_rect node_n1]" DEFAULT_SETTINGS False
        "Some \<lparr>rect_x = 0, rect_y = 0, rect_width = 400, rect_height = 400\<rparr>"
        None]
    by (simp add: inside nohit group_click_resolve strat box)
qed

subsection \<open>Interception\<close>

text \<open>Each \<^verbatim>\<open>patchCanvas\<close> on a canvas adds one more dispatch to every wrapped method.\<close>

lemma patchCanvas_adds_dispatch:
  "dispatched (markMoved (prototype (patchCanvas (Some c) this)))
     = dispatched (markMoved (prototype this)) @ [CANVAS_MOVED]"
  "dispatched (markDirty (prototype (patchCanvas (Some c) this)))
     = dispatched (markDirty (prototype this)) @ [CANVAS_DIRTY]"
  "dispatched (markViewportChanged (prototype (patchCanvas (Some c) this)))
     = dispatched (markViewportChanged (prototype this)) @ [CANVAS_VIEWPORT_CHANGED]"
  "dispatched (requestFrame (prototype (patchCanvas (Some c) this)))
     = dispatched (requestFrame (prototype this)) @ [CANVAS_TICK]"
  by (simp_all add: patchCanvas_def around_def Let_def)

lemma patchCanvas_flag: "canvas_patched (patchCanvas (Some c) this)"
  by (simp add: patchCanvas_def Let_def)

lemma new_plugin_dispatch:
  "dispatched (markMoved (prototype (new_plugin v))) = []"
  "dispatched (markDirty (prototype (new_plugin v))) = []"
  "dispatched (markViewportChanged (prototype (new_plugin v))) = []"
  "dispatched (requestFrame (prototype (new_plugin v))) = []"
  by (simp_all add: new_plugin_def)

text \<open>
  \<^verbatim>\<open>setupMinimap\<close> patches on every call, so each \<^verbatim>\<open>reloadMinimap\<close> on an active canvas
  adds a wrapper as well.
\<close>

lemma reload_adds_dispatch:
  assumes "enabled (settings this)" "getActiveCanvas this \<noteq> None"
  shows "dispatched (requestFrame (prototype (fst (reloadMinimap this))))
     = dispatched (requestFrame (prototype this)) @ [CANVAS_TICK]"
  using assms
  by (auto simp: reloadMinimap_def setupMinimap_def unloadMinimap_def getActiveCanvas_def
      patchCanvas_def around_def Let_def split: option.splits)

lemma setup_then_reload:
  "dispatched (markMoved (prototype
      (fst (reloadMinimap (fst (setupMinimap (new_plugin (Some (canvas_view group_canvas)))))))))
     = [CANVAS_MOVED, CANVAS_MOVED]"
  by (simp add: reloadMinimap_def setupMinimap_def unloadMinimap_def new_plugin_def
      DEFAULT_SETTINGS_def getActiveCanvas_def canvas_view_def patchCanvas_def around_def
      Events_on_def Events_off_def Let_def)

text \<open>
  C2 fails on the code. \<^verbatim>\<open>patchCanvas\<close> sets \<^verbatim>\<open>canvas_patched\<close> but never reads it:
  after two calls on one canvas a single invocation of each wrapped method dispatches
  its event twice, and so it does after \<^verbatim>\<open>setupMinimap\<close> followed by one
  \<^verbatim>\<open>reloadMinimap\<close>.
\<close>

theorem patchCanvas_twice_double_emits:
  "canvas_patched (patchCanvas (Some group_canvas) (new_plugin (Some (canvas_view group_canvas))))
   \<and> dispatched (markMoved (prototype
        (patchCanvas (Some group_canvas)
          (patchCanvas (Some group_canvas) (new_plugin (Some (canvas_view group_canvas)))))))
       = [CANVAS_MOVED, CANVAS_MOVED]
   \<and> dispatched (markDirty (prototype
        (patchCanvas (Some group_canvas)
          (patchCanvas (Some group_canvas) (new_plugin (Some (canvas_view group_canvas)))))))
       = [CANVAS_DIRTY, CANVAS_DIRTY]
   \<and> dispatched (markViewportChanged (prototype
        (patchCanvas (Some group_canvas)
          (patchCanvas (Some group_canvas) (new_plugin (Some (canvas_view group_canvas)))))))
       = [CANVAS_VIEWPORT_CHANGED, CANVAS_VIEWPORT_CHANGED]
   \<and> dispatched (requestFrame (prototype
        (patchCanvas (Some group_canvas)
          (patchCanvas (Some group_canvas) (new_plugin (Some (canvas_view group_canvas)))))))
       = [CANVAS_TICK, CANVAS_TICK]
   \<and> dispatched (markMoved (prototype
        (fst (reloadMinimap
          (fst (setupMinimap (new_plugin (Some (canvas_view group_canvas)))))))))
       = [CANVAS_MOVED, CANVAS_MOVED]"
  by (simp add: patchCanvas_adds_dispatch new_plugin_dispatch patchCanvas_flag
      setup_then_reload)

subsection \<open>Teardown\<close>

lemma remove1_count_le1: "count_list xs x \<le> 1 \<Longrightarrow> x \<notin> set (remove1 x xs)"
  by (induction xs) (auto simp: count_list_0_iff split: if_splits)

lemma Events_off_none: "(name, cb) \<notin> set (Events_off ev name cb)"
  by (simp add: Events_off_def)

lemma tick_unsubscribed: "CANVAS_TICK \<notin> fst ` set (Events_off ev CANVAS_TICK onCanvasUpdate)"
proof
  assume "CANVAS_TICK \<in> fst ` set (Events_off ev CANVAS_TICK onCanvasUpdate)"
  then obtain cb where "(CANVAS_TICK, cb) \<in> set (Events_off ev CANVAS_TICK onCanvasUpdate)"
    by auto
  moreover have "cb = onCanvasUpdate" by (cases cb) simp
  ultimately show False by (simp add: Events_off_def)
qed

text \<open>
  At most one overlay element exists: a new plugin has none, \<^verbatim>\<open>setupMinimap\<close> appends
  one only when there is none, and \<^verbatim>\<open>unloadMinimap\<close> adds none.
\<close>

lemma setupMinimap_overlay_inv:
  "count_list (body_ids this) ''_minimap_'' \<le> 1
     \<Longrightarrow> count_list (body_ids (fst (setupMinimap this))) ''_minimap_'' \<le> 1"
  by (auto simp: setupMinimap_def patchCanvas_def Let_def count_list_0_iff Events_on_def
      split: option.splits)

lemma count_list_remove1_le: "count_list (remove1 y xs) x \<le> count_list xs x"
  by (induction xs) auto

lemma unloadMinimap_overlay_inv:
  "count_list (body_ids this) ''_minimap_'' \<le> 1
     \<Longrightarrow> count_list (body_ids (unloadMinimap this)) ''_minimap_'' \<le> 1"
  using count_list_remove1_le [of "''_minimap_toolbar_''" "remove1 ''_minimap_'' (body_ids this)" "''_minimap_''"]
        count_list_remove1_le [of "''_minimap_''" "body_ids this" "''_minimap_''"]
  by (simp add: unloadMinimap_def)

lemma new_plugin_overlay_inv: "count_list (body_ids (new_plugin v)) ''_minimap_'' \<le> 1"
  by (simp add: new_plugin_def)

lemma setup_group_body:
  "body_ids (fst (setupMinimap (new_plugin (Some (canvas_view group_canvas))))) = [''_minimap_'']"
  "canvas_event (fst (setupMinimap (new_plugin (Some (canvas_view group_canvas)))))
     = [(CANVAS_TICK, onCanvasUpdate)]"
  by (simp_all add: setupMinimap_def new_plugin_def DEFAULT_SETTINGS_def getActiveCanvas_def
      canvas_view_def patchCanvas_def Events_on_def Let_def)

text \<open>
  C5, as amended. After \<^verbatim>\<open>unloadMinimap()\<close> while a canvas view is active, no element
  with id \<^verbatim>\<open>_minimap_\<close> remains (the plugin creates the overlay only when none exists,
  so at most one is present) and no subscription for \<open>CANVAS_TICK\<close> remains registered;
  while no canvas view is active, \<^verbatim>\<open>unloadMinimap()\<close> changes nothing.
\<close>

theorem unloadMinimap_teardown:
  "(getActiveCanvas this \<noteq> None \<and> count_list (body_ids this) ''_minimap_'' \<le> 1
      \<longrightarrow> ''_minimap_'' \<notin> set (body_ids (unloadMinimap this))
        \<and> CANVAS_TICK \<notin> fst ` set (canvas_event (unloadMinimap this)))
   \<and> (getActiveCanvas this = None \<longrightarrow> unloadMinimap this = this)"
proof (intro conjI impI)
  assume a: "getActiveCanvas this \<noteq> None \<and> count_list (body_ids this) ''_minimap_'' \<le> 1"
  then have "''_minimap_'' \<notin> set (remove1 ''_minimap_'' (body_ids this))"
    by (simp add: remove1_count_le1)
  then have "''_minimap_'' \<notin> set (remove1 ''_minimap_toolbar_'' (remove1 ''_minimap_'' (body_ids this)))"
    by (metis notin_set_remove1)
  with a show "''_minimap_'' \<notin> set (body_ids (unloadMinimap this))"
    by (simp add: unloadMinimap_def)
  from a show "CANVAS_TICK \<notin> fst ` set (canvas_event (unloadMinimap this))"
    using tick_unsubscribed by (simp add: unloadMinimap_def)
next
  assume "getActiveCanvas this = None"
  then show "unloadMinimap this = this" by (simp add: unloadMinimap_def)
qed

theorem unloadMinimap_teardown_witness:
  "getActiveCanvas (fst (setupMinimap (new_plugin (Some (canvas_view group_canvas))))) \<noteq> None
   \<and> count_list (body_ids (fst (setupMinimap (new_plugin (Some (canvas_view group_canvas))))))
        ''_minimap_'' \<le> 1
   \<and> ''_minimap_'' \<notin> set (body_ids (unloadMinimap
        (fst (setupMinimap (new_plugin (Some (canvas_view group_canvas)))))))
   \<and> CANVAS_TICK \<notin> fst ` set (canvas_event (unloadMinimap
        (fst (setupMinimap (new_plugin (Some (canvas_view group_canvas)))))))
   \<and> getActiveCanvas left_canvas = None
   \<and> unloadMinimap left_canvas = left_canvas"
proof -
  have active: "getActiveCanvas (fst (setupMinimap (new_plugin (Some (canvas_view group_canvas)))))
      = Some group_canvas"
    by (simp add: setupMinimap_def new_plugin_def DEFAULT_SETTINGS_def getActiveCanvas_def
      canvas_view_def patchCanvas_def Events_on_def Let_def)
  have left: "getActiveCanvas left_canvas = None"
    by (simp add: left_canvas_def getActiveCanvas_def markdown_view_def)
  show ?thesis
    using unloadMinimap_teardown [of "fst (setupMinimap (new_plugin (Some (canvas_view group_canvas))))"]
      unloadMinimap_teardown [of left_canvas]
    by (simp add: active left setup_group_body)
qed

text \<open>
  C5 as stated fails: once the user has left the canvas view, \<^verbatim>\<open>unloadMinimap()\<close> keeps
  both the overlay element and the \<open>CANVAS_TICK\<close> subscription.
\<close>

theorem unloadMinimap_keeps_overlay_counterexample:
  "getActiveCanvas left_canvas = None
   \<and> ''_minimap_'' \<in> set (body_ids (unloadMinimap left_canvas))
   \<and> (CANVAS_TICK, onCanvasUpdate) \<in> set (canvas_event (unloadMinimap left_canvas))"
  by (simp add: left_canvas_def unloadMinimap_def getActiveCanvas_def markdown_view_def
      setup_group_body)

end
